theory Spec2Isabelle
  imports Complex_Main
begin

section \<open>Text as Python sees it\<close>

text \<open>
  A Python \<open>str\<close> is modelled as a \<open>string\<close> whose characters are the code points
  below 256. The functions of this section are the methods of \<open>str\<close> and the builtin
  \<open>int\<close> that \<^verbatim>\<open>banking_system.py\<close> calls on the lines of its files.
\<close>

datatype error = ValueError | AttributeError

definition isspace :: "char \<Rightarrow> bool" where
  \<comment> \<open>\<open>str.isspace\<close> on one character: tab to carriage return, the four separators
      \<open>0x1C\<close> to \<open>0x1F\<close>, the blank, NEL and the no-break space.\<close>
  "isspace c \<longleftrightarrow> c \<in> set [CHR 0x09, CHR 0x0A, CHR 0x0B, CHR 0x0C, CHR 0x0D,
     CHR 0x1C, CHR 0x1D, CHR 0x1E, CHR 0x1F, CHR 0x20, CHR 0x85, CHR 0xA0]"

definition strip :: "string \<Rightarrow> string" where
  \<comment> \<open>\<open>s.strip()\<close>: whitespace removed at both ends.\<close>
  "strip s = rev (dropWhile isspace (rev (dropWhile isspace s)))"

fun str_split :: "char \<Rightarrow> string \<Rightarrow> string list" where
  \<comment> \<open>\<open>s.split(sep)\<close> for a separator of one character.\<close>
  "str_split sep [] = [[]]"
| "str_split sep (c # cs) =
     (if c = sep then [] # str_split sep cs
      else (case str_split sep cs of [] \<Rightarrow> [[c]] | w # ws \<Rightarrow> (c # w) # ws))"

definition lower_char :: "char \<Rightarrow> char" where
  "lower_char c =
     (let n = (of_char c :: nat)
      in if (65 \<le> n \<and> n \<le> 90) \<or> (192 \<le> n \<and> n \<le> 222 \<and> n \<noteq> 215)
         then char_of (n + 32) else c)"

definition lower :: "string \<Rightarrow> string" where
  \<comment> \<open>\<open>s.lower()\<close>.\<close>
  "lower s = map lower_char s"

definition isdigit :: "char \<Rightarrow> bool" where
  "isdigit c \<longleftrightarrow> c \<in> set ''0123456789''"

definition digit_val :: "char \<Rightarrow> nat" where
  \<comment> \<open>The value of a decimal digit: its code point less that of \<open>0\<close>.\<close>
  "digit_val c = of_char c - 48"

definition digit_char :: "nat \<Rightarrow> char" where
  "digit_char d = ''0123456789'' ! d"

fun digits :: "nat \<Rightarrow> string" where
  "digits n = (if n < 10 then [digit_char n] else digits (n div 10) @ [digit_char (n mod 10)])"

declare digits.simps [simp del]

definition str_int :: "int \<Rightarrow> string" where
  \<comment> \<open>\<open>str(i)\<close>, which is what an f-string writes for an \<open>int\<close>.\<close>
  "str_int i = (if i < 0 then CHR ''-'' # digits (nat (- i)) else digits (nat i))"

definition py_int :: "string \<Rightarrow> error + int" where
  \<comment> \<open>\<open>int(s)\<close> in base 10: surrounding whitespace, one optional sign, decimal digits,
      single underscores between digits; anything else raises \<open>ValueError\<close>. The bound
      of 4300 digits that recent interpreters put on the text is left out.\<close>
  "py_int s =
     (let t = strip s;
          neg = (t \<noteq> [] \<and> hd t = CHR ''-'');
          body = (if t \<noteq> [] \<and> (hd t = CHR ''-'' \<or> hd t = CHR ''+'') then tl t else t);
          groups = str_split CHR ''_'' body
      in if list_all (\<lambda>g. g \<noteq> [] \<and> list_all isdigit g) groups
         then Inr ((if neg then - 1 else 1) *
                   int (foldl (\<lambda>a c. 10 * a + digit_val c) 0 (concat groups)))
         else Inl ValueError)"

section \<open>Builtins taken as parameters\<close>

text \<open>
  Three library functions are not code of the repository and are taken as parameters:
  \<open>hashlib.sha256(p.encode()).hexdigest()\<close>, the conversion \<open>float(s)\<close> (\<open>None\<close> where
  Python raises \<open>ValueError\<close>) and the text an f-string writes for a float. Balances and
  amounts are exact rationals: rounding, infinities and NaN of IEEE doubles are outside
  the model.
\<close>

record builtins =
  py_sha256 :: "string \<Rightarrow> string"
  py_float :: "string \<Rightarrow> rat option"
  py_str :: "rat \<Rightarrow> string"

definition hash_password :: "builtins \<Rightarrow> string \<Rightarrow> string" where
  "hash_password py password = py_sha256 py password"

definition to_float :: "builtins \<Rightarrow> string \<Rightarrow> error + rat" where
  \<comment> \<open>\<open>float(s)\<close> with its exception.\<close>
  "to_float py s = (case py_float py s of None \<Rightarrow> Inl ValueError | Some x \<Rightarrow> Inr x)"

section \<open>The two files and the account objects\<close>

text \<open>
  \<^verbatim>\<open>accounts.txt\<close> is the list of its lines, each without its terminator (\<open>input()\<close> never
  returns one, so no field holds one). A row of \<^verbatim>\<open>transactions.txt\<close> is the triple of
  account number, description and amount; its fourth column, \<open>datetime.now()\<close>, is left out.
\<close>

type_synonym txn = "string \<times> string \<times> rat"

record account =
  account_no :: string
  name :: string
  password :: string
  balance :: rat
  acc_type :: string

record state =
  accounts_file :: "string list"
  transactions_file :: "txn list"
  logged_in_account :: "account option"

definition generate_account_number :: "string list \<Rightarrow> error + int" where
  "generate_account_number lines =
     (if lines = [] then Inr 100001
      else (case py_int (hd (str_split CHR '','' (last lines))) of
              Inl e \<Rightarrow> Inl e
            | Inr last_account \<Rightarrow> Inr (last_account + 1)))"

definition log_transaction :: "string \<Rightarrow> string \<Rightarrow> rat \<Rightarrow> string option \<Rightarrow> txn list \<Rightarrow> txn list" where
  \<comment> \<open>\<open>if target_account:\<close> is false for \<open>None\<close> and for the empty string.\<close>
  "log_transaction acc_no txn_type amount target_account f =
     (case target_account of
        None \<Rightarrow> f @ [(acc_no, txn_type, amount)]
      | Some t \<Rightarrow>
          if t \<noteq> [] then f @ [(acc_no, txn_type @ '' to '' @ t, amount)]
          else f @ [(acc_no, txn_type, amount)])"

definition Account :: "builtins \<Rightarrow> string \<Rightarrow> string \<Rightarrow> string \<Rightarrow> string \<Rightarrow> string \<Rightarrow> error + account" where
  \<comment> \<open>\<open>Account.__init__\<close>: \<open>float(balance)\<close> may raise.\<close>
  "Account py no nm pwd bal ty =
     (case to_float py bal of
        Inl e \<Rightarrow> Inl e
      | Inr b \<Rightarrow> Inr \<lparr>account_no = no, name = nm, password = pwd, balance = b, acc_type = ty\<rparr>)"

definition Account_deposit :: "account \<Rightarrow> rat \<Rightarrow> txn list \<Rightarrow> account \<times> txn list" where
  "Account_deposit self amount f =
     (self\<lparr>balance := balance self + amount\<rparr>,
      log_transaction (account_no self) ''Deposit'' amount None f)"

definition Account_withdraw :: "account \<Rightarrow> rat \<Rightarrow> txn list \<Rightarrow> bool \<times> account \<times> txn list" where
  "Account_withdraw self amount f =
     (if amount > balance self then (False, self, f)
      else (True, self\<lparr>balance := balance self - amount\<rparr>,
            log_transaction (account_no self) ''Withdrawal'' amount None f))"

definition Account_transfer ::
  "account \<Rightarrow> account \<Rightarrow> rat \<Rightarrow> txn list \<Rightarrow> bool \<times> account \<times> account \<times> txn list" where
  \<comment> \<open>The session object and the target, an object of the list just read, are two objects
      even when they carry the same account number.\<close>
  "Account_transfer self target_account amount f =
     (if amount > balance self then (False, self, target_account, f)
      else (True, self\<lparr>balance := balance self - amount\<rparr>,
            target_account\<lparr>balance := balance target_account + amount\<rparr>,
            log_transaction (account_no target_account) ''Received'' amount (Some (account_no self))
              (log_transaction (account_no self) ''Transfer'' amount
                 (Some (account_no target_account)) f)))"

definition unpack5 :: "string list \<Rightarrow> error + (string \<times> string \<times> string \<times> string \<times> string)" where
  \<comment> \<open>\<open>a, b, c, d, e = fields\<close> raises \<open>ValueError\<close> unless there are five.\<close>
  "unpack5 parts =
     (case parts of [a, b, c, d, e] \<Rightarrow> Inr (a, b, c, d, e) | _ \<Rightarrow> Inl ValueError)"

definition parse_line :: "builtins \<Rightarrow> string \<Rightarrow> error + account" where
  \<comment> \<open>One pass of the loop body in \<open>get_all_accounts\<close>, for a line that is not blank.\<close>
  "parse_line py line =
     (case unpack5 (str_split CHR '','' (strip line)) of
        Inl e \<Rightarrow> Inl e
      | Inr (no, nm, pwd, bal, ty) \<Rightarrow> Account py no nm pwd bal ty)"

fun get_all_accounts :: "builtins \<Rightarrow> string list \<Rightarrow> error + account list" where
  "get_all_accounts py [] = Inr []"
| "get_all_accounts py (line # f) =
     (if strip line \<noteq> [] then
        (case parse_line py line of
           Inl e \<Rightarrow> Inl e
         | Inr acc \<Rightarrow>
             (case get_all_accounts py f of
                Inl e \<Rightarrow> Inl e
              | Inr accounts \<Rightarrow> Inr (acc # accounts)))
      else get_all_accounts py f)"

definition format_account :: "builtins \<Rightarrow> account \<Rightarrow> string" where
  \<comment> \<open>The f-string of \<open>save_accounts\<close>, without the newline.\<close>
  "format_account py acc =
     account_no acc @ '','' @ name acc @ '','' @ password acc @ '','' @
     py_str py (balance acc) @ '','' @ acc_type acc"

definition save_accounts :: "builtins \<Rightarrow> account list \<Rightarrow> string list" where
  \<comment> \<open>The file is opened with \<open>"w"\<close>: what it held is gone.\<close>
  "save_accounts py accounts = map (format_account py) accounts"

section \<open>The banking system\<close>

text \<open>
  Every method takes what the user types as arguments and returns the line it prints
  together with the state it leaves, or the exception that ends the process: no
  method catches one. What the files hold when an exception has ended the process is
  not part of the model.
\<close>

datatype message =
    AccountCreated int
  | Welcome string
  | InvalidLogin
  | DepositSuccessful
  | InsufficientBalance
  | WithdrawalSuccessful
  | CurrentBalance rat
  | InsufficientBalanceForTransfer
  | TransferSuccessful
  | TargetNotFound
  | IncorrectOldPassword
  | PasswordChanged
  | AccountClosed
  | NoOutput

definition init :: state where
  \<comment> \<open>\<open>BankingSystem.__init__\<close> where neither file exists yet.\<close>
  "init = \<lparr>accounts_file = [], transactions_file = [], logged_in_account = None\<rparr>"

definition create_account ::
  "builtins \<Rightarrow> string \<Rightarrow> string \<Rightarrow> string \<Rightarrow> string \<Rightarrow> state \<Rightarrow> error + message \<times> state" where
  "create_account py nm pwd ty deposit_in st =
     (case to_float py deposit_in of
        Inl e \<Rightarrow> Inl e
      | Inr dep \<Rightarrow>
          (case generate_account_number (accounts_file st) of
             Inl e \<Rightarrow> Inl e
           | Inr no \<Rightarrow>
               Inr (AccountCreated no,
                    st\<lparr>accounts_file := accounts_file st @
                       [str_int no @ '','' @ nm @ '','' @ hash_password py pwd @ '','' @
                        py_str py dep @ '','' @ ty]\<rparr>)))"

fun login_scan :: "builtins \<Rightarrow> string \<Rightarrow> string \<Rightarrow> string list \<Rightarrow> error + account option" where
  \<comment> \<open>The loop of \<open>login\<close>: it unpacks every line it reaches, blank ones too, and builds
      the object of the first line that matches.\<close>
  "login_scan py acc_no hashed_password [] = Inr None"
| "login_scan py acc_no hashed_password (line # f) =
     (case unpack5 (str_split CHR '','' (strip line)) of
        Inl e \<Rightarrow> Inl e
      | Inr (no, nm, pwd, bal, ty) \<Rightarrow>
          if no = acc_no \<and> pwd = hashed_password then
            (case Account py no nm pwd bal ty of
               Inl e \<Rightarrow> Inl e
             | Inr acc \<Rightarrow> Inr (Some acc))
          else login_scan py acc_no hashed_password f)"

definition login :: "builtins \<Rightarrow> string \<Rightarrow> string \<Rightarrow> state \<Rightarrow> error + message \<times> state" where
  \<comment> \<open>\<open>Welcome\<close> is the return value \<open>True\<close>, \<open>InvalidLogin\<close> is \<open>False\<close>.\<close>
  "login py acc_no pwd st =
     (case login_scan py acc_no (hash_password py pwd) (accounts_file st) of
        Inl e \<Rightarrow> Inl e
      | Inr None \<Rightarrow> Inr (InvalidLogin, st)
      | Inr (Some acc) \<Rightarrow> Inr (Welcome (name acc), st\<lparr>logged_in_account := Some acc\<rparr>))"

definition update_account :: "builtins \<Rightarrow> state \<Rightarrow> error + state" where
  \<comment> \<open>The loop reads \<open>self.logged_in_account.account_no\<close> once per record, so without a
      session it raises only when there is a record.\<close>
  "update_account py st =
     (case get_all_accounts py (accounts_file st) of
        Inl e \<Rightarrow> Inl e
      | Inr accounts \<Rightarrow>
          (case logged_in_account st of
             None \<Rightarrow>
               if accounts = [] then Inr (st\<lparr>accounts_file := save_accounts py accounts\<rparr>)
               else Inl AttributeError
           | Some me \<Rightarrow>
               Inr (st\<lparr>accounts_file := save_accounts py
                      (map (\<lambda>acc. if account_no acc = account_no me
                                   then acc\<lparr>balance := balance me\<rparr> else acc) accounts)\<rparr>)))"

definition deposit :: "builtins \<Rightarrow> string \<Rightarrow> state \<Rightarrow> error + message \<times> state" where
  "deposit py amount_in st =
     (case to_float py amount_in of
        Inl e \<Rightarrow> Inl e
      | Inr amount \<Rightarrow>
          (case logged_in_account st of
             None \<Rightarrow> Inl AttributeError
           | Some me \<Rightarrow>
               (case Account_deposit me amount (transactions_file st) of
                  (me', f') \<Rightarrow>
                    (case update_account py
                            (st\<lparr>logged_in_account := Some me', transactions_file := f'\<rparr>) of
                       Inl e \<Rightarrow> Inl e
                     | Inr st' \<Rightarrow> Inr (DepositSuccessful, st')))))"

definition withdraw :: "builtins \<Rightarrow> string \<Rightarrow> state \<Rightarrow> error + message \<times> state" where
  "withdraw py amount_in st =
     (case to_float py amount_in of
        Inl e \<Rightarrow> Inl e
      | Inr amount \<Rightarrow>
          (case logged_in_account st of
             None \<Rightarrow> Inl AttributeError
           | Some me \<Rightarrow>
               (case Account_withdraw me amount (transactions_file st) of
                  (ok, me', f') \<Rightarrow>
                    if ok then
                      (case update_account py
                              (st\<lparr>logged_in_account := Some me', transactions_file := f'\<rparr>) of
                         Inl e \<Rightarrow> Inl e
                       | Inr st' \<Rightarrow> Inr (WithdrawalSuccessful, st'))
                    else Inr (InsufficientBalance, st))))"

definition check_balance :: "state \<Rightarrow> error + message \<times> state" where
  "check_balance st =
     (case logged_in_account st of
        None \<Rightarrow> Inl AttributeError
      | Some me \<Rightarrow> Inr (CurrentBalance (balance me), st))"

fun replace_first :: "('a \<Rightarrow> bool) \<Rightarrow> 'a \<Rightarrow> 'a list \<Rightarrow> 'a list" where
  \<comment> \<open>The list after the first element that satisfies \<open>P\<close> has become \<open>y\<close>: the target
      of a transfer is an object of the list and is changed in place.\<close>
  "replace_first P y [] = []"
| "replace_first P y (x # xs) = (if P x then y # xs else x # replace_first P y xs)"

definition transfer :: "builtins \<Rightarrow> string \<Rightarrow> string \<Rightarrow> state \<Rightarrow> error + message \<times> state" where
  \<comment> \<open>On success \<open>update_account\<close> rewrites the file from a fresh read, then
      \<open>save_accounts(accounts)\<close> rewrites it from the list read at the start.\<close>
  "transfer py target_no amount_in st =
     (case to_float py amount_in of
        Inl e \<Rightarrow> Inl e
      | Inr amount \<Rightarrow>
          (case get_all_accounts py (accounts_file st) of
             Inl e \<Rightarrow> Inl e
           | Inr accounts \<Rightarrow>
               (case find (\<lambda>acc. account_no acc = target_no) accounts of
                  None \<Rightarrow> Inr (TargetNotFound, st)
                | Some target_account \<Rightarrow>
                    (case logged_in_account st of
                       None \<Rightarrow> Inl AttributeError
                     | Some me \<Rightarrow>
                         (case Account_transfer me target_account amount (transactions_file st) of
                            (ok, me', target_account', f') \<Rightarrow>
                              if ok then
                                (case update_account py
                                        (st\<lparr>logged_in_account := Some me',
                                            transactions_file := f'\<rparr>) of
                                   Inl e \<Rightarrow> Inl e
                                 | Inr st' \<Rightarrow>
                                     Inr (TransferSuccessful,
                                          st'\<lparr>accounts_file := save_accounts py
                                                (replace_first (\<lambda>acc. account_no acc = target_no)
                                                   target_account' accounts)\<rparr>))
                              else Inr (InsufficientBalanceForTransfer, st))))))"

definition change_password :: "builtins \<Rightarrow> string \<Rightarrow> string \<Rightarrow> state \<Rightarrow> error + message \<times> state" where
  "change_password py old_pwd new_pwd st =
     (case logged_in_account st of
        None \<Rightarrow> Inl AttributeError
      | Some me \<Rightarrow>
          if hash_password py old_pwd \<noteq> password me then Inr (IncorrectOldPassword, st)
          else
            (let me' = me\<lparr>password := hash_password py new_pwd\<rparr> in
             case get_all_accounts py (accounts_file st) of
               Inl e \<Rightarrow> Inl e
             | Inr accounts \<Rightarrow>
                 Inr (PasswordChanged,
                      st\<lparr>logged_in_account := Some me',
                         accounts_file := save_accounts py
                           (map (\<lambda>acc. if account_no acc = account_no me'
                                        then acc\<lparr>password := password me'\<rparr> else acc)
                              accounts)\<rparr>)))"

definition close_account :: "builtins \<Rightarrow> string \<Rightarrow> state \<Rightarrow> error + message \<times> state" where
  "close_account py confirm st =
     (if lower confirm = ''yes'' then
        (case get_all_accounts py (accounts_file st) of
           Inl e \<Rightarrow> Inl e
         | Inr accounts \<Rightarrow>
             (case logged_in_account st of
                None \<Rightarrow>
                  if accounts = [] then
                    Inr (AccountClosed, st\<lparr>accounts_file := save_accounts py []\<rparr>)
                  else Inl AttributeError
              | Some me \<Rightarrow>
                  Inr (AccountClosed,
                       st\<lparr>accounts_file := save_accounts py
                              (filter (\<lambda>acc. account_no acc \<noteq> account_no me) accounts),
                          logged_in_account := None\<rparr>)))
      else Inr (NoOutput, st))"

text \<open>
  The two menus read a choice and call one method; a run of the program is a list of
  such calls. Logging out (choice 7) only leaves the account menu and changes nothing.
\<close>

datatype command =
    CreateAccount string string string string
  | Login string string
  | Deposit string
  | Withdraw string
  | CheckBalance
  | Transfer string string
  | ChangePassword string string
  | CloseAccount string

fun step :: "builtins \<Rightarrow> command \<Rightarrow> state \<Rightarrow> error + message \<times> state" where
  "step py (CreateAccount nm pwd ty dep) st = create_account py nm pwd ty dep st"
| "step py (Login acc_no pwd) st = login py acc_no pwd st"
| "step py (Deposit amount) st = deposit py amount st"
| "step py (Withdraw amount) st = withdraw py amount st"
| "step py CheckBalance st = check_balance st"
| "step py (Transfer target_no amount) st = transfer py target_no amount st"
| "step py (ChangePassword old_pwd new_pwd) st = change_password py old_pwd new_pwd st"
| "step py (CloseAccount confirm) st = close_account py confirm st"

fun run :: "builtins \<Rightarrow> command list \<Rightarrow> state \<Rightarrow> error + message list \<times> state" where
  "run py [] st = Inr ([], st)"
| "run py (c # cs) st =
     (case step py c st of
        Inl e \<Rightarrow> Inl e
      | Inr (m, st') \<Rightarrow>
          (case run py cs st' of
             Inl e \<Rightarrow> Inl e
           | Inr (ms, st'') \<Rightarrow> Inr (m # ms, st'')))"

section \<open>Records that survive a rewrite of the file\<close>

definition float_text_ok :: "builtins \<Rightarrow> rat \<Rightarrow> bool" where
  \<comment> \<open>What Python guarantees of the text of a float: it holds no comma and \<open>float\<close>
      reads the same number back.\<close>
  "float_text_ok py x \<longleftrightarrow>
     py_float py (py_str py x) = Some x \<and> CHR '','' \<notin> set (py_str py x)"

definition well_formed :: "account \<Rightarrow> bool" where
  \<comment> \<open>The text fields of an object built from a line: no field holds a comma, the
      first does not start and the last does not end with whitespace.\<close>
  "well_formed acc \<longleftrightarrow>
     CHR '','' \<notin> set (account_no acc) \<and> CHR '','' \<notin> set (name acc) \<and>
     CHR '','' \<notin> set (password acc) \<and> CHR '','' \<notin> set (acc_type acc) \<and>
     (account_no acc = [] \<or> \<not> isspace (hd (account_no acc))) \<and>
     (acc_type acc = [] \<or> \<not> isspace (last (acc_type acc)))"

definition builtins_ok :: "builtins \<Rightarrow> bool" where
  \<comment> \<open>The facts about the three builtins that the proofs use: the text of every float
      reads back as that float, and neither it nor a hex digest holds a comma.\<close>
  "builtins_ok py \<longleftrightarrow>
     (\<forall>x. float_text_ok py x) \<and> (\<forall>p. CHR '','' \<notin> set (py_sha256 py p))"

section \<open>An instance of the builtins\<close>

text \<open>
  Stand-ins on which the model can be run. On the decimal text of a whole number the
  conversions agree with Python (\<open>float("50")\<close> is \<open>50.0\<close>, written \<open>50.0\<close>); other
  rationals are written as fractions so that every balance has a text; the digest is
  the hexadecimal text of the password. They say nothing about SHA-256 or IEEE doubles.
\<close>

definition hexdigit :: "nat \<Rightarrow> char" where
  "hexdigit n = ''0123456789abcdef'' ! n"

definition example_sha256 :: "string \<Rightarrow> string" where
  "example_sha256 p =
     concat (map (\<lambda>c. [hexdigit (of_char c div 16), hexdigit (of_char c mod 16)]) p)"

definition example_str :: "rat \<Rightarrow> string" where
  "example_str x =
     (case quotient_of x of
        (n, d) \<Rightarrow> if d = 1 then str_int n @ ''.0'' else str_int n @ ''/'' @ str_int d)"

definition int_text :: "string \<Rightarrow> rat option" where
  "int_text s = (case py_int s of Inl e \<Rightarrow> None | Inr n \<Rightarrow> Some (of_int n))"

definition example_float :: "string \<Rightarrow> rat option" where
  "example_float s =
     (case str_split CHR ''/'' (strip s) of
        [a] \<Rightarrow>
          (case str_split CHR ''.'' a of
             [i] \<Rightarrow> int_text i
           | [i, z] \<Rightarrow> if z = ''0'' then int_text i else None
           | _ \<Rightarrow> None)
      | [a, b] \<Rightarrow>
          (case (py_int a, py_int b) of
             (Inr n, Inr d) \<Rightarrow> if d = 0 then None else Some (of_int n / of_int d)
           | _ \<Rightarrow> None)
      | _ \<Rightarrow> None)"

definition example :: builtins where
  "example = \<lparr>py_sha256 = example_sha256, py_float = example_float, py_str = example_str\<rparr>"

section \<open>Notions that the statements use\<close>











definition numbered :: "int list \<Rightarrow> string list \<Rightarrow> bool" where
  \<comment> \<open>Line by line the file starts with the decimal text of these numbers and a comma.\<close>
  "numbered ns f \<longleftrightarrow> list_all2 (\<lambda>n line. \<exists>rest. line = str_int n @ CHR '','' # rest) ns f"


section \<open>A small bank\<close>

definition ann :: account where
  "ann = \<lparr>account_no = ''100001'', name = ''Ann'', password = ''707731'', balance = 100,
           acc_type = ''Savings''\<rparr>"

definition bob :: account where
  "bob = \<lparr>account_no = ''100002'', name = ''Bob'', password = ''707732'', balance = 0,
           acc_type = ''Savings''\<rparr>"


definition ann_logged_in :: state where
  \<comment> \<open>The same files after Ann has logged in.\<close>
  "ann_logged_in =
     \<lparr>accounts_file = [''100001,Ann,707731,100.0,Savings'', ''100002,Bob,707732,0.0,Savings''],
      transactions_file = [],
      logged_in_account = Some ann\<rparr>"

section \<open>Splitting and stripping\<close>

lemma str_split_not_Nil: "str_split sep s \<noteq> []"
  by (induction s) (auto split: list.splits)

lemma str_split_no_sep: "sep \<notin> set s \<Longrightarrow> str_split sep s = [s]"
  by (induction s) auto

lemma str_split_append:
  "sep \<notin> set a \<Longrightarrow> str_split sep (a @ sep # rest) = a # str_split sep rest"
  by (induction a) auto

lemma str_split_fields: "w \<in> set (str_split sep s) \<Longrightarrow> sep \<notin> set w"
  by (induction s arbitrary: w) (auto split: if_splits list.splits)

lemma str_split_Cons:
  "str_split sep s = w # ws \<Longrightarrow>
     (if ws = [] then s = w else \<exists>rest. s = w @ sep # rest \<and> str_split sep rest = ws)"
proof (induction s arbitrary: w ws)
  case Nil
  then show ?case by simp
next
  case (Cons c cs)
  show ?case
  proof (cases "c = sep")
    case True
    with Cons.prems show ?thesis
      using str_split_not_Nil [of sep cs] by auto
  next
    case False
    with Cons.prems obtain w' where w': "str_split sep cs = w' # ws" "w = c # w'"
      using str_split_not_Nil [of sep cs] by (auto split: list.splits)
    from Cons.IH [OF w'(1)] w'(2) show ?thesis
      by (auto split: if_splits)
  qed
qed

lemma strip_ends:
  assumes "strip s \<noteq> []"
  shows "\<not> isspace (hd (strip s))" and "\<not> isspace (last (strip s))"
proof -
  let ?t = "dropWhile isspace s"
  have t: "dropWhile isspace (rev ?t) \<noteq> []"
    using assms by (simp add: strip_def)
  then have "\<not> isspace (hd (dropWhile isspace (rev ?t)))"
    by (rule hd_dropWhile)
  then show "\<not> isspace (last (strip s))"
    using t by (simp add: strip_def last_rev)
  from t have "rev ?t \<noteq> []" by (metis dropWhile.simps(1))
  then have tn: "?t \<noteq> []" by (metis rev_is_Nil_conv)
  then have h: "\<not> isspace (hd ?t)" by (rule hd_dropWhile)
  obtain ys where ys: "rev ?t = ys @ dropWhile isspace (rev ?t)"
    by (metis takeWhile_dropWhile_id)
  then have "?t = rev (dropWhile isspace (rev ?t)) @ rev ys"
    by (metis rev_append rev_rev_ident)
  then have "hd ?t = hd (strip s)"
    using assms by (metis hd_append2 strip_def)
  with h show "\<not> isspace (hd (strip s))" by simp
qed

lemma strip_id:
  assumes "s \<noteq> []" "\<not> isspace (hd s)" "\<not> isspace (last s)"
  shows "strip s = s"
proof -
  from assms have 1: "dropWhile isspace s = s"
    by (cases s) auto
  from assms have "rev s \<noteq> []" "\<not> isspace (hd (rev s))"
    by (simp_all add: hd_rev)
  then have "dropWhile isspace (rev s) = rev s"
    by (cases "rev s") auto
  with 1 show ?thesis by (simp add: strip_def)
qed

section \<open>Reading back what was written\<close>

lemma not_isspace_comma: "\<not> isspace CHR '',''"
  by (simp add: isspace_def)

lemma split_format:
  assumes "well_formed acc" "CHR '','' \<notin> set bt"
  shows "str_split CHR '','' (account_no acc @ '','' @ name acc @ '','' @ password acc @ '','' @ bt @ '','' @ acc_type acc)
         = [account_no acc, name acc, password acc, bt, acc_type acc]"
  using assms by (simp add: well_formed_def str_split_append str_split_no_sep)

lemma strip_format:
  assumes "well_formed acc"
  shows "strip (format_account py acc) = format_account py acc"
proof (rule strip_id)
  show "format_account py acc \<noteq> []" by (simp add: format_account_def)
  show "\<not> isspace (hd (format_account py acc))"
    using assms not_isspace_comma
    by (cases "account_no acc") (auto simp: format_account_def well_formed_def)
  show "\<not> isspace (last (format_account py acc))"
    using assms not_isspace_comma
    by (cases "acc_type acc = []") (auto simp: format_account_def well_formed_def)
qed

lemma parse_format:
  assumes "well_formed acc" "float_text_ok py (balance acc)"
  shows "parse_line py (format_account py acc) = Inr acc"
proof -
  have "str_split CHR '','' (format_account py acc)
        = [account_no acc, name acc, password acc, py_str py (balance acc), acc_type acc]"
    unfolding format_account_def using assms
    by (intro split_format) (simp_all add: float_text_ok_def)
  then show ?thesis
    using assms
    by (simp add: parse_line_def strip_format unpack5_def Account_def to_float_def float_text_ok_def)
qed

lemma get_all_save:
  "\<forall>acc \<in> set accounts. well_formed acc \<and> float_text_ok py (balance acc) \<Longrightarrow>
   get_all_accounts py (save_accounts py accounts) = Inr accounts"
proof (induction accounts)
  case Nil
  then show ?case by (simp add: save_accounts_def)
next
  case (Cons acc accounts)
  then have "strip (format_account py acc) \<noteq> []"
    by (simp add: strip_format) (simp add: format_account_def)
  with Cons show ?case
    by (simp add: save_accounts_def parse_format)
qed

lemma unpack5_Inr:
  "unpack5 parts = Inr (a, b, c, d, e) \<Longrightarrow> parts = [a, b, c, d, e]"
  by (auto simp: unpack5_def split: list.splits)

lemma parse_line_fields:
  assumes "parse_line py line = Inr acc"
  shows "\<exists>bt. str_split CHR '','' (strip line) = [account_no acc, name acc, password acc, bt, acc_type acc]
              \<and> py_float py bt = Some (balance acc)"
  using assms
  by (auto simp: parse_line_def Account_def to_float_def
           split: sum.splits option.splits dest!: unpack5_Inr)

lemma parse_well_formed:
  assumes "parse_line py line = Inr acc"
  shows "well_formed acc"
proof -
  from parse_line_fields [OF assms] obtain bt where
    sp: "str_split CHR '','' (strip line) = [account_no acc, name acc, password acc, bt, acc_type acc]"
    by blast
  then have ne: "strip line \<noteq> []" by auto
  have commas: "CHR '','' \<notin> set (account_no acc)" "CHR '','' \<notin> set (name acc)"
    "CHR '','' \<notin> set (password acc)" "CHR '','' \<notin> set (acc_type acc)"
    using str_split_fields [of _ "CHR '',''" "strip line"] sp by simp_all
  from str_split_Cons [OF sp] obtain r1 where
    r1: "strip line = account_no acc @ CHR '','' # r1"
        "str_split CHR '','' r1 = [name acc, password acc, bt, acc_type acc]"
    by auto
  from str_split_Cons [OF r1(2)] obtain r2 where
    r2: "r1 = name acc @ CHR '','' # r2" "str_split CHR '','' r2 = [password acc, bt, acc_type acc]"
    by auto
  from str_split_Cons [OF r2(2)] obtain r3 where
    r3: "r2 = password acc @ CHR '','' # r3" "str_split CHR '','' r3 = [bt, acc_type acc]"
    by auto
  from str_split_Cons [OF r3(2)] obtain r4 where
    r4: "r3 = bt @ CHR '','' # r4" "str_split CHR '','' r4 = [acc_type acc]"
    by auto
  from str_split_Cons [OF r4(2)] have r5: "r4 = acc_type acc" by simp
  have first: "account_no acc = [] \<or> \<not> isspace (hd (account_no acc))"
    using strip_ends(1) [OF ne] r1(1) by (cases "account_no acc") auto
  have "acc_type acc \<noteq> [] \<Longrightarrow> last (strip line) = last (acc_type acc)"
    using r1(1) r2(1) r3(1) r4(1) r5 by simp
  then have lst: "acc_type acc = [] \<or> \<not> isspace (last (acc_type acc))"
    using strip_ends(2) [OF ne] by auto
  show ?thesis
    using commas first lst by (simp add: well_formed_def)
qed

lemma get_all_well_formed:
  "get_all_accounts py f = Inr accounts \<Longrightarrow> \<forall>acc \<in> set accounts. well_formed acc"
proof (induction f arbitrary: accounts)
  case Nil
  then show ?case by simp
next
  case (Cons line f)
  then show ?case
    by (auto split: if_splits sum.splits dest: parse_well_formed)
qed

section \<open>Integers as text\<close>

lemma digit_char_isdigit: "d < 10 \<Longrightarrow> isdigit (digit_char d)"
proof -
  assume "d < 10"
  then have "d \<in> {0, 1, 2, 3, 4, 5, 6, 7, 8, 9}" by auto
  then show ?thesis
    by (auto simp: digit_char_def isdigit_def)
qed

lemma digit_val_digit_char: "d < 10 \<Longrightarrow> digit_val (digit_char d) = d"
proof -
  assume "d < 10"
  then have "d \<in> {0, 1, 2, 3, 4, 5, 6, 7, 8, 9}" by auto
  then show ?thesis
    by (auto simp: digit_char_def digit_val_def)
qed

lemma digits_not_Nil: "digits n \<noteq> []"
  by (subst digits.simps) simp

lemma digits_isdigit: "c \<in> set (digits n) \<Longrightarrow> isdigit c"
proof (induction n arbitrary: c rule: digits.induct)
  case (1 n)
  show ?case
  proof (cases "n < 10")
    case True
    with "1.prems" show ?thesis
      by (subst (asm) digits.simps) (simp add: digit_char_isdigit)
  next
    case False
    with "1.prems" "1.IH" show ?thesis
      by (subst (asm) digits.simps) (auto simp: digit_char_isdigit)
  qed
qed

lemma digits_value: "foldl (\<lambda>a c. 10 * a + digit_val c) 0 (digits n) = n"
proof (induction n rule: digits.induct)
  case (1 n)
  show ?case
  proof (cases "n < 10")
    case True
    then show ?thesis
      by (subst digits.simps) (simp add: digit_val_digit_char)
  next
    case False
    with "1.IH" show ?thesis
      by (subst digits.simps) (simp add: digit_val_digit_char)
  qed
qed

lemma isdigit_chars:
  assumes "isdigit c"
  shows "\<not> isspace c" "c \<noteq> CHR '',''" "c \<noteq> CHR ''_''" "c \<noteq> CHR ''-''" "c \<noteq> CHR ''+''"
    "c \<noteq> CHR ''/''" "c \<noteq> CHR ''.''"
  using assms by (auto simp: isdigit_def isspace_def)

lemma digits_hd: "isdigit (hd (digits n))"
  using digits_isdigit [of "hd (digits n)" n] digits_not_Nil [of n] by simp

lemma digits_last: "isdigit (last (digits n))"
  using digits_isdigit [of "last (digits n)" n] digits_not_Nil [of n] by simp

lemma strip_digits: "strip (digits n) = digits n"
  by (rule strip_id) (simp_all add: digits_not_Nil isdigit_chars digits_hd digits_last)

lemma py_int_digits: "py_int (digits n) = Inr (int n)"
proof -
  have "CHR ''_'' \<notin> set (digits n)"
    using digits_isdigit isdigit_chars(3) by blast
  then have sp: "str_split CHR ''_'' (digits n) = [digits n]"
    by (rule str_split_no_sep)
  have hd: "hd (digits n) \<noteq> CHR ''-''" "hd (digits n) \<noteq> CHR ''+''"
    using digits_hd [of n] isdigit_chars by blast+
  have "list_all isdigit (digits n)"
    by (simp add: list_all_iff digits_isdigit)
  then show ?thesis
    by (simp add: py_int_def strip_digits Let_def hd sp digits_not_Nil digits_value)
qed

lemma py_int_str_int: "py_int (str_int i) = Inr i"
proof (cases "i < 0")
  case False
  then show ?thesis by (simp add: str_int_def py_int_digits)
next
  case True
  let ?d = "digits (nat (- i))"
  have "CHR ''_'' \<notin> set ?d"
    using digits_isdigit isdigit_chars(3) by blast
  then have sp: "str_split CHR ''_'' ?d = [?d]"
    by (rule str_split_no_sep)
  have st: "strip (CHR ''-'' # ?d) = CHR ''-'' # ?d"
  proof (rule strip_id)
    show "CHR ''-'' # ?d \<noteq> []" by simp
    show "\<not> isspace (hd (CHR ''-'' # ?d))" by (simp add: isspace_def)
    show "\<not> isspace (last (CHR ''-'' # ?d))"
      by (simp add: digits_not_Nil isdigit_chars digits_last)
  qed
  have "list_all isdigit ?d"
    by (simp add: list_all_iff digits_isdigit)
  with True show ?thesis
    by (simp add: str_int_def py_int_def st Let_def sp digits_not_Nil digits_value)
qed

lemma str_int_chars:
  "c \<in> set (str_int i) \<Longrightarrow> isdigit c \<or> c = CHR ''-''"
  by (auto simp: str_int_def dest: digits_isdigit split: if_splits)

lemma str_int_no_comma: "CHR '','' \<notin> set (str_int i)"
  using str_int_chars [of "CHR '',''" i] by (auto simp: isdigit_def)

lemma str_int_not_Nil: "str_int i \<noteq> []"
  by (simp add: str_int_def digits_not_Nil)

lemma str_int_hd: "\<not> isspace (hd (str_int i))"
proof -
  have "isdigit (hd (str_int i)) \<or> hd (str_int i) = CHR ''-''"
    using str_int_chars [of "hd (str_int i)" i] str_int_not_Nil [of i] by simp
  moreover have "\<not> isspace CHR ''-''" by (simp add: isspace_def)
  ultimately show ?thesis by (auto simp: isdigit_chars)
qed

section \<open>The instance satisfies what is asked of the builtins\<close>

lemma str_int_free:
  "CHR ''/'' \<notin> set (str_int i)" "CHR ''.'' \<notin> set (str_int i)"
  using str_int_chars [of "CHR ''/''" i] str_int_chars [of "CHR ''.''" i]
  by (auto simp: isdigit_def)

lemma str_int_last: "\<not> isspace (last (str_int i))"
proof -
  have "last (str_int i) = last (digits (nat \<bar>i\<bar>))"
    by (simp add: str_int_def digits_not_Nil)
  then show ?thesis
    by (simp add: digits_last isdigit_chars)
qed

lemma int_text_str_int: "int_text (str_int i) = Some (of_int i)"
  by (simp add: int_text_def py_int_str_int)

lemma example_float_str: "example_float (example_str x) = Some x"
proof -
  obtain n d where q: "quotient_of x = (n, d)" by (cases "quotient_of x")
  then have x: "of_int n / of_int d = x" and d: "d > 0"
    using quotient_of_div [of x n d] quotient_of_denom_pos [of x n d] by simp_all
  show ?thesis
  proof (cases "d = 1")
    case True
    have st: "strip (str_int n @ ''.0'') = str_int n @ ''.0''"
    proof (rule strip_id)
      show "str_int n @ ''.0'' \<noteq> []" by simp
      show "\<not> isspace (hd (str_int n @ ''.0''))"
        by (simp add: str_int_not_Nil str_int_hd)
      show "\<not> isspace (last (str_int n @ ''.0''))"
        by (simp add: isspace_def)
    qed
    have s1: "str_split CHR ''/'' (str_int n @ ''.0'') = [str_int n @ ''.0'']"
      by (rule str_split_no_sep) (simp add: str_int_free)
    have s2: "str_split CHR ''.'' (str_int n @ ''.0'') = [str_int n, ''0'']"
      using str_split_append [of "CHR ''.''" "str_int n" "''0''"]
      by (simp add: str_int_free)
    from True have "example_float (example_str x) = Some (of_int n / of_int d)"
      by (simp add: example_float_def example_str_def q st s1 s2 int_text_str_int)
    with x show ?thesis by simp
  next
    case False
    let ?t = "str_int n @ CHR ''/'' # str_int d"
    have st: "strip ?t = ?t"
      by (rule strip_id) (simp_all add: str_int_not_Nil str_int_hd str_int_last)
    have s1: "str_split CHR ''/'' ?t = [str_int n, str_int d]"
      using str_split_append [of "CHR ''/''" "str_int n" "str_int d"]
      by (simp add: str_int_free str_split_no_sep)
    from False d have "example_float (example_str x) = Some (of_int n / of_int d)"
      by (simp add: example_float_def example_str_def q st s1 py_int_str_int)
    with x show ?thesis by simp
  qed
qed

lemma example_str_no_comma: "CHR '','' \<notin> set (example_str x)"
  by (cases "quotient_of x") (simp add: example_str_def str_int_no_comma)

lemma hexdigit_no_comma: "n < 16 \<Longrightarrow> CHR '','' \<noteq> hexdigit n"
proof -
  assume "n < 16"
  then have "hexdigit n \<in> set ''0123456789abcdef''"
    unfolding hexdigit_def by (intro nth_mem) simp
  then show ?thesis by auto
qed

lemma of_char_div_16: "(of_char c :: nat) div 16 < 16"
proof -
  have "(of_char c :: nat) < 256" by simp
  then show ?thesis by presburger
qed

lemma example_sha256_no_comma: "CHR '','' \<notin> set (example_sha256 p)"
  by (induction p) (simp_all add: example_sha256_def of_char_div_16 hexdigit_no_comma)

lemma builtins_ok_example: "builtins_ok example"
  by (simp add: builtins_ok_def float_text_ok_def example_def example_float_str
        example_str_no_comma example_sha256_no_comma)




section \<open>Running the model\<close>

text \<open>
  The simplifier runs the model on numerals and literal strings with these equations.
\<close>

lemma digits_numeral:
  "digits (numeral k) =
     (if numeral k < (10::nat) then [digit_char (numeral k)]
      else digits (numeral k div 10) @ [digit_char (numeral k mod 10)])"
  by (rule digits.simps)

lemma digits_small: "digits 0 = ''0''" "digits 1 = ''1''" "digits (Suc 0) = ''1''"
  by (simp_all add: digits.simps digit_char_def)

lemmas text_eval = strip_def isspace_def isdigit_def digit_val_def digit_char_def
  digits_numeral digits_small str_int_def py_int_def lower_def lower_char_def

lemmas example_eval = example_def example_sha256_def example_str_def example_float_def
  int_text_def hexdigit_def

lemmas model_eval = hash_password_def to_float_def generate_account_number_def
  log_transaction_def Account_def Account_deposit_def Account_withdraw_def
  Account_transfer_def unpack5_def parse_line_def format_account_def save_accounts_def
  init_def create_account_def login_def update_account_def deposit_def withdraw_def
  check_balance_def transfer_def change_password_def close_account_def

section \<open>Round trip through the file\<close>

text \<open>
  C7. Writing back the records just read changes nothing that a later read sees:
  where \<open>get_all_accounts\<close> returns a list, \<open>get_all_accounts\<close> after
  \<open>save_accounts\<close> of that list returns the same list, field for field. What is
  asked of Python is that the text of each balance reads back as that balance and
  holds no comma.
\<close>

theorem save_accounts_get_all_accounts_round_trip:
  assumes "get_all_accounts py f = Inr accounts"
    and "\<forall>acc \<in> set accounts. float_text_ok py (balance acc)"
  shows "get_all_accounts py (save_accounts py accounts) = Inr accounts"
  using assms get_all_well_formed [OF assms(1)] by (intro get_all_save) blast

theorem save_accounts_get_all_accounts_round_trip_witness:
  "get_all_accounts example
     [''100001,Ann,707731,100.0,Savings'', '' '', ''  100002,Bob,707732,7,Current ''] =
   Inr [\<lparr>account_no = ''100001'', name = ''Ann'', password = ''707731'', balance = 100,
          acc_type = ''Savings''\<rparr>,
        \<lparr>account_no = ''100002'', name = ''Bob'', password = ''707732'', balance = 7,
          acc_type = ''Current''\<rparr>] \<and>
   save_accounts example
     [\<lparr>account_no = ''100001'', name = ''Ann'', password = ''707731'', balance = 100,
        acc_type = ''Savings''\<rparr>,
      \<lparr>account_no = ''100002'', name = ''Bob'', password = ''707732'', balance = 7,
        acc_type = ''Current''\<rparr>] =
     [''100001,Ann,707731,100.0,Savings'', ''100002,Bob,707732,7.0,Current''] \<and>
   get_all_accounts example
     (save_accounts example
        [\<lparr>account_no = ''100001'', name = ''Ann'', password = ''707731'', balance = 100,
           acc_type = ''Savings''\<rparr>,
         \<lparr>account_no = ''100002'', name = ''Bob'', password = ''707732'', balance = 7,
           acc_type = ''Current''\<rparr>]) =
   Inr [\<lparr>account_no = ''100001'', name = ''Ann'', password = ''707731'', balance = 100,
          acc_type = ''Savings''\<rparr>,
        \<lparr>account_no = ''100002'', name = ''Bob'', password = ''707732'', balance = 7,
          acc_type = ''Current''\<rparr>]"
proof -
  let ?f = "[''100001,Ann,707731,100.0,Savings'', '' '', ''  100002,Bob,707732,7,Current '']"
  let ?accounts = "[\<lparr>account_no = ''100001'', name = ''Ann'', password = ''707731'',
      balance = 100, acc_type = ''Savings''\<rparr>,
    \<lparr>account_no = ''100002'', name = ''Bob'', password = ''707732'', balance = 7,
      acc_type = ''Current''\<rparr>]"
  have read: "get_all_accounts example ?f = Inr ?accounts"
    by (simp add: model_eval example_eval text_eval)
  have texts: "\<forall>acc \<in> set ?accounts. float_text_ok example (balance acc)"
    using builtins_ok_example by (simp add: builtins_ok_def)
  have written: "save_accounts example ?accounts =
      [''100001,Ann,707731,100.0,Savings'', ''100002,Bob,707732,7.0,Current'']"
    by (simp add: model_eval example_eval text_eval)
  from save_accounts_get_all_accounts_round_trip [OF read texts] read written
  show ?thesis by blast
qed

section \<open>What one call does\<close>

lemma to_float_Some: "py_float py s = Some x \<Longrightarrow> to_float py s = Inr x"
  by (simp add: to_float_def)

lemma update_account_Some:
  assumes "logged_in_account st = Some me"
    and "get_all_accounts py (accounts_file st) = Inr accounts"
  shows "update_account py st =
     Inr (st\<lparr>accounts_file := save_accounts py
            (map (\<lambda>acc. if account_no acc = account_no me
                         then acc\<lparr>balance := balance me\<rparr> else acc) accounts)\<rparr>)"
  using assms by (simp add: update_account_def)


lemma withdraw_success:
  assumes "logged_in_account st = Some me" "py_float py amount_in = Some amount"
    and "amount \<le> balance me"
    and "get_all_accounts py (accounts_file st) = Inr accounts"
  shows "withdraw py amount_in st =
     Inr (WithdrawalSuccessful,
          st\<lparr>logged_in_account := Some (me\<lparr>balance := balance me - amount\<rparr>),
             transactions_file := transactions_file st @ [(account_no me, ''Withdrawal'', amount)],
             accounts_file := save_accounts py
               (map (\<lambda>acc. if account_no acc = account_no me
                            then acc\<lparr>balance := balance me - amount\<rparr> else acc) accounts)\<rparr>)"
  using assms
  by (simp add: withdraw_def to_float_Some Account_withdraw_def log_transaction_def
        update_account_Some cong: if_cong)


lemma transfer_success:
  assumes "logged_in_account st = Some me" "py_float py amount_in = Some amount"
    and "amount \<le> balance me"
    and "get_all_accounts py (accounts_file st) = Inr accounts"
    and "find (\<lambda>acc. account_no acc = target_no) accounts = Some target_account"
  shows "transfer py target_no amount_in st =
     Inr (TransferSuccessful,
          st\<lparr>logged_in_account := Some (me\<lparr>balance := balance me - amount\<rparr>),
             transactions_file :=
               log_transaction (account_no target_account) ''Received'' amount
                 (Some (account_no me))
                 (log_transaction (account_no me) ''Transfer'' amount
                    (Some (account_no target_account)) (transactions_file st)),
             accounts_file := save_accounts py
               (replace_first (\<lambda>acc. account_no acc = target_no)
                  (target_account\<lparr>balance := balance target_account + amount\<rparr>)
                  accounts)\<rparr>)"
  using assms
  by (simp add: transfer_def to_float_Some Account_transfer_def update_account_Some
        cong: if_cong)


section \<open>Refusals and withdrawals\<close>

lemma ann_logged_in_run:
  "run example [CreateAccount ''Ann'' ''pw1'' ''Savings'' ''100'',
                CreateAccount ''Bob'' ''pw2'' ''Savings'' ''0'',
                Login ''100001'' ''pw1''] init =
   Inr ([AccountCreated 100001, AccountCreated 100002, Welcome ''Ann''], ann_logged_in)"
  by (simp add: ann_logged_in_def ann_def model_eval example_eval text_eval)

lemma ann_logged_in_accounts:
  "get_all_accounts example (accounts_file ann_logged_in) = Inr [ann, bob]"
  by (simp add: ann_logged_in_def ann_def bob_def model_eval example_eval text_eval)

lemma example_float_texts:
  "py_float example ''1000'' = Some 1000" "py_float example ''-20'' = Some (- 20)"
  "py_float example ''30'' = Some 30" "py_float example ''50'' = Some 50"
  "py_float example ''-150'' = Some (- 150)" "py_float example ''70'' = Some 70"
  by (simp_all add: example_eval text_eval)



text \<open>
  C9. \<open>withdraw\<close> never looks at the sign of the amount. For every amount that is at
  most the balance, negative ones included, \<open>Account.withdraw\<close> returns \<open>True\<close>, the
  balance becomes the balance less the amount and one \<open>Withdrawal\<close> row is appended;
  where the accounts file can be read, \<open>BankingSystem.withdraw\<close> then writes that
  balance to every record with the session's number and reports success.
\<close>

theorem withdraw_has_no_positivity_check:
  assumes "logged_in_account st = Some me" and "py_float py amount_in = Some amount"
    and "amount \<le> balance me"
    and "get_all_accounts py (accounts_file st) = Inr accounts"
  shows "Account_withdraw me amount (transactions_file st) =
           (True, me\<lparr>balance := balance me - amount\<rparr>,
            transactions_file st @ [(account_no me, ''Withdrawal'', amount)]) \<and>
         withdraw py amount_in st =
           Inr (WithdrawalSuccessful,
                st\<lparr>logged_in_account := Some (me\<lparr>balance := balance me - amount\<rparr>),
                   transactions_file :=
                     transactions_file st @ [(account_no me, ''Withdrawal'', amount)],
                   accounts_file := save_accounts py
                     (map (\<lambda>acc. if account_no acc = account_no me
                                  then acc\<lparr>balance := balance me - amount\<rparr> else acc)
                        accounts)\<rparr>)"
  using assms withdraw_success [OF assms]
  by (simp add: Account_withdraw_def log_transaction_def)

theorem withdraw_has_no_positivity_check_witness:
  "Account_withdraw ann (- 20) [] =
     (True, ann\<lparr>balance := 120\<rparr>, [(''100001'', ''Withdrawal'', - 20)]) \<and>
   withdraw example ''-20'' ann_logged_in =
     Inr (WithdrawalSuccessful,
          \<lparr>accounts_file = [''100001,Ann,707731,120.0,Savings'', ''100002,Bob,707732,0.0,Savings''],
           transactions_file = [(''100001'', ''Withdrawal'', - 20)],
           logged_in_account = Some (ann\<lparr>balance := 120\<rparr>)\<rparr>)"
proof -
  have session: "logged_in_account ann_logged_in = Some ann"
    by (simp add: ann_logged_in_def)
  have low: "- 20 \<le> balance ann"
    by (simp add: ann_def)
  from withdraw_has_no_positivity_check
    [OF session example_float_texts(2) low ann_logged_in_accounts]
  show ?thesis
    by (simp add: ann_logged_in_def ann_def bob_def model_eval example_eval text_eval)
qed

section \<open>Transfer to oneself\<close>

lemma find_replace_first:
  "find P xs = Some x \<Longrightarrow> P y \<Longrightarrow> find P (replace_first P y xs) = Some y"
  by (induction xs) (auto split: if_splits)

lemma set_replace_first: "set (replace_first P y xs) \<subseteq> insert y (set xs)"
  by (induction xs) auto

lemma find_Some_set: "find P xs = Some x \<Longrightarrow> x \<in> set xs \<and> P x"
  by (induction xs) (auto split: if_splits)

lemma well_formed_balance [simp]: "well_formed (acc\<lparr>balance := b\<rparr>) = well_formed acc"
  by (simp add: well_formed_def)

lemma get_all_save_changed:
  assumes "builtins_ok py" and "get_all_accounts py f = Inr accounts"
    and "\<forall>acc \<in> set accounts'. well_formed acc"
  shows "get_all_accounts py (save_accounts py accounts') = Inr accounts'"
  using assms by (intro get_all_save) (simp add: builtins_ok_def)

text \<open>
  C10. A transfer to the session's own account number is carried out like any other.
  For every amount that is at most the session balance it reports success, the session
  balance becomes that balance less the amount, two rows are appended to the
  transaction log, and the file written last holds, for the account's record, the
  balance that record had in the file before the transfer plus the amount.
\<close>

theorem self_transfer_is_not_rejected:
  assumes "builtins_ok py"
    and "logged_in_account st = Some me" and "py_float py amount_in = Some amount"
    and "amount \<le> balance me"
    and "get_all_accounts py (accounts_file st) = Inr accounts"
    and "find (\<lambda>acc. account_no acc = account_no me) accounts = Some own"
  shows "\<exists>st'. transfer py (account_no me) amount_in st = Inr (TransferSuccessful, st') \<and>
           logged_in_account st' = Some (me\<lparr>balance := balance me - amount\<rparr>) \<and>
           transactions_file st' =
             log_transaction (account_no me) ''Received'' amount (Some (account_no me))
               (log_transaction (account_no me) ''Transfer'' amount (Some (account_no me))
                  (transactions_file st)) \<and>
           length (transactions_file st') = length (transactions_file st) + 2 \<and>
           (\<exists>accounts'. get_all_accounts py (accounts_file st') = Inr accounts' \<and>
              find (\<lambda>acc. account_no acc = account_no me) accounts' =
                Some (own\<lparr>balance := balance own + amount\<rparr>))"
proof -
  let ?P = "\<lambda>acc. account_no acc = account_no me"
  let ?own' = "own\<lparr>balance := balance own + amount\<rparr>"
  let ?accounts' = "replace_first ?P ?own' accounts"
  from find_Some_set [OF assms(6)] have own: "own \<in> set accounts" "account_no own = account_no me"
    by simp_all
  have "\<forall>acc \<in> set accounts. well_formed acc"
    using assms(5) by (rule get_all_well_formed)
  with own(1) set_replace_first [of ?P ?own' accounts]
  have "\<forall>acc \<in> set ?accounts'. well_formed acc" by auto
  with assms(1,5) have reread: "get_all_accounts py (save_accounts py ?accounts') = Inr ?accounts'"
    by (rule get_all_save_changed)
  have found: "find ?P ?accounts' = Some ?own'"
    using assms(6) own(2) by (intro find_replace_first) simp_all
  from transfer_success [OF assms(2-6)] own(2) reread found show ?thesis
    by (simp add: log_transaction_def)
qed

theorem self_transfer_is_not_rejected_witness:
  "transfer example ''100001'' ''30'' ann_logged_in =
     Inr (TransferSuccessful,
          \<lparr>accounts_file = [''100001,Ann,707731,130.0,Savings'', ''100002,Bob,707732,0.0,Savings''],
           transactions_file = [(''100001'', ''Transfer to 100001'', 30),
                                (''100001'', ''Received to 100001'', 30)],
           logged_in_account = Some (ann\<lparr>balance := 70\<rparr>)\<rparr>) \<and>
   get_all_accounts example
     [''100001,Ann,707731,130.0,Savings'', ''100002,Bob,707732,0.0,Savings''] =
     Inr [ann\<lparr>balance := 130\<rparr>, bob]"
proof -
  have session: "logged_in_account ann_logged_in = Some ann"
    by (simp add: ann_logged_in_def)
  have low: "30 \<le> balance ann"
    by (simp add: ann_def)
  have own: "find (\<lambda>acc. account_no acc = account_no ann) [ann, bob] = Some ann"
    by simp
  from self_transfer_is_not_rejected
    [OF builtins_ok_example session example_float_texts(3) low ann_logged_in_accounts own]
  show ?thesis
    by (simp add: ann_logged_in_def ann_def bob_def model_eval example_eval text_eval)
qed

section \<open>What a call that returned must have found\<close>






section \<open>What a transfer writes\<close>

lemma find_other_replace_first:
  "account_no y = k \<Longrightarrow> k' \<noteq> k \<Longrightarrow>
   find (\<lambda>acc. account_no acc = k') (replace_first (\<lambda>acc. account_no acc = k) y accounts) =
   find (\<lambda>acc. account_no acc = k') accounts"
  by (induction accounts) auto

text \<open>
  What a transfer to another account leaves in the file, whatever the accounts are:
  the receiver's record is credited, the sender's record is the one read before the
  debit, and only the session object is debited.
\<close>

lemma transfer_to_another_account_reads_back:
  assumes "builtins_ok py"
    and "logged_in_account st = Some me" and "py_float py amount_in = Some amount"
    and "amount \<le> balance me"
    and "get_all_accounts py (accounts_file st) = Inr accounts"
    and "find (\<lambda>acc. account_no acc = target_no) accounts = Some target_account"
    and "target_no \<noteq> account_no me"
  shows "\<exists>st' accounts'.
           transfer py target_no amount_in st = Inr (TransferSuccessful, st') \<and>
           logged_in_account st' = Some (me\<lparr>balance := balance me - amount\<rparr>) \<and>
           get_all_accounts py (accounts_file st') = Inr accounts' \<and>
           find (\<lambda>acc. account_no acc = target_no) accounts' =
             Some (target_account\<lparr>balance := balance target_account + amount\<rparr>) \<and>
           find (\<lambda>acc. account_no acc = account_no me) accounts' =
             find (\<lambda>acc. account_no acc = account_no me) accounts"
proof -
  let ?P = "\<lambda>acc. account_no acc = target_no"
  let ?target' = "target_account\<lparr>balance := balance target_account + amount\<rparr>"
  let ?accounts' = "replace_first ?P ?target' accounts"
  from find_Some_set [OF assms(6)] have target: "target_account \<in> set accounts"
    "account_no target_account = target_no"
    by simp_all
  have "\<forall>acc \<in> set accounts. well_formed acc"
    using assms(5) by (rule get_all_well_formed)
  with target(1) set_replace_first [of ?P ?target' accounts]
  have "\<forall>acc \<in> set ?accounts'. well_formed acc" by auto
  with assms(1,5) have reread: "get_all_accounts py (save_accounts py ?accounts') = Inr ?accounts'"
    by (rule get_all_save_changed)
  have credited: "find ?P ?accounts' = Some ?target'"
    using assms(6) target(2) by (intro find_replace_first) simp_all
  have kept: "find (\<lambda>acc. account_no acc = account_no me) ?accounts' =
      find (\<lambda>acc. account_no acc = account_no me) accounts"
    using target(2) assms(7) by (intro find_other_replace_first) simp_all
  from transfer_success [OF assms(2-6)] reread credited kept show ?thesis
    by simp
qed

text \<open>
  C1. Ann, with 100 in the session and in the file, transfers 50 to Bob, who has 0.
  The call reports success, the session object holds 50 and Bob's record 50, but the
  file written last still holds 100 for Ann: \<open>update_account\<close> had written her 50,
  and \<open>save_accounts(accounts)\<close> then wrote the list read before the debit. Read back
  from the file, sender and receiver hold 150 together where they held 100.
\<close>

theorem transfer_writes_sender_record_undebited:
  "get_all_accounts example (accounts_file ann_logged_in) = Inr [ann, bob] \<and>
   transfer example ''100002'' ''50'' ann_logged_in =
     Inr (TransferSuccessful,
          \<lparr>accounts_file = [''100001,Ann,707731,100.0,Savings'', ''100002,Bob,707732,50.0,Savings''],
           transactions_file = [(''100001'', ''Transfer to 100002'', 50),
                                (''100002'', ''Received to 100001'', 50)],
           logged_in_account = Some (ann\<lparr>balance := 50\<rparr>)\<rparr>) \<and>
   get_all_accounts example
     [''100001,Ann,707731,100.0,Savings'', ''100002,Bob,707732,50.0,Savings''] =
     Inr [ann, bob\<lparr>balance := 50\<rparr>] \<and>
   balance ann + balance bob = 100 \<and>
   balance ann + balance (bob\<lparr>balance := 50\<rparr>) = 150"
  by (simp add: ann_logged_in_def ann_def bob_def model_eval example_eval text_eval)

section \<open>Balances that stay above zero\<close>















section \<open>Replaying deposits and withdrawals\<close>








section \<open>Logging in\<close>







section \<open>Account numbers in the file\<close>



lemma numbered_Nil [simp]: "numbered ns [] \<longleftrightarrow> ns = []" "numbered [] f \<longleftrightarrow> f = []"
  by (simp_all add: numbered_def)



































end
